theory Spec2Isabelle
  imports Main
begin

section \<open>Stored data\<close>

text \<open>
  The tables of \<^verbatim>\<open>create_trakr_db.py\<close>, as lists of rows in storage order. Every
  table has \<^verbatim>\<open>sn SERIAL PRIMARY KEY\<close> (\<^verbatim>\<open>id\<close> for Organizations) and no other
  constraint: \<^verbatim>\<open>imei\<close>, \<^verbatim>\<open>mac\<close> and \<^verbatim>\<open>organization_name\<close> are plain
  \<^verbatim>\<open>TEXT\<close> columns, neither unique nor foreign keys. Only the columns that the
  modelled queries read or write are kept; telemetry and GPS columns, which are passed
  through unchanged, are left out. The columns that the response schemas declare as
  required strings are taken as present; \<^verbatim>\<open>mac\<close> is optional as in
  \<^verbatim>\<open>TrackingObjectCreate\<close>, and the handling columns are optional as in the
  \<^verbatim>\<open>Alarm\<close> schema. Timestamps are integers.
\<close>

type_synonym timestamp = int

record alarm_row =
  a_sn :: int
  a_organization :: string
  a_imei :: string
  a_warn_type :: string
  a_time :: timestamp
  a_is_handled :: "bool option"
  a_handled_by :: "string option"
  a_handled_at :: "timestamp option"
  a_handle_reason :: "string option"

record tag_row =
  t_sn :: int
  t_organization :: string
  t_imei :: string

record tracking_object_row =
  to_sn :: int
  to_name :: string
  to_mac :: "string option"

record organization_row =
  o_id :: int
  o_organization_name :: string

record route_row =
  r_sn :: int
  r_terminal_id :: string
  r_tracking_time :: timestamp

record db =
  Alarms :: "alarm_row list"
  Tags :: "tag_row list"
  Tracking_Objects :: "tracking_object_row list"
  Organizations :: "organization_row list"
  Route_List :: "route_row list"

section \<open>Errors\<close>

text \<open>
  \<^verbatim>\<open>HTTPException(status_code, detail)\<close>. A detail built by an f-string from a list
  of ids, such as \<^verbatim>\<open>f"Alarms not found: {missing_ids}"\<close>, keeps its prefix and the list
  apart.
\<close>

datatype detail = Text string | TextIds string "int list"

datatype error = HTTPException nat detail

section \<open>Request validation (schemas)\<close>

text \<open>
  The pydantic validators of \<^verbatim>\<open>AlarmHandleRequest.alarm_ids\<close> and
  \<^verbatim>\<open>TagTransferRequest.tag_ids\<close>; \<open>Inl\<close> carries the message of the
  \<^verbatim>\<open>ValueError\<close>. \<^verbatim>\<open>len(set(v))\<close> is \<open>length (remdups v)\<close>.
\<close>

definition validate_alarm_ids :: "int list \<Rightarrow> string + int list" where
  "validate_alarm_ids v =
     (if v = [] then Inl ''At least one alarm ID must be provided''
      else if length v > 100 then Inl ''Cannot handle more than 100 alarms at once''
      else if length (remdups v) \<noteq> length v then Inl ''Duplicate alarm IDs are not allowed''
      else Inr v)"

definition validate_tag_ids :: "int list \<Rightarrow> string + int list" where
  "validate_tag_ids v =
     (if v = [] then Inl ''At least one tag ID must be provided''
      else if length v > 100 then Inl ''Cannot transfer more than 100 tags at once''
      else Inr v)"

record AlarmHandleRequest =
  alarm_ids :: "int list"
  reason :: "string option"

record TagTransferRequest =
  tag_ids :: "int list"
  new_organization_id :: int
  transfer_reason :: "string option"

section \<open>Bulk alarm handling (alarms\_service.handle\_alarms)\<close>

text \<open>
  \<^verbatim>\<open>SELECT sn, organization, is_handled FROM Alarms WHERE sn = ANY(%s)\<close>
\<close>

definition select_alarms_by_ids :: "alarm_row list \<Rightarrow> int list \<Rightarrow> (int \<times> string \<times> bool option) list" where
  "select_alarms_by_ids tbl ids =
     map (\<lambda>a. (a_sn a, a_organization a, a_is_handled a)) (filter (\<lambda>a. a_sn a \<in> set ids) tbl)"

text \<open>Python truth of an optional boolean column: \<^verbatim>\<open>None\<close> and \<^verbatim>\<open>False\<close> are false.\<close>

definition truthy :: "bool option \<Rightarrow> bool" where
  "truthy b = (b = Some True)"

text \<open>
  \<^verbatim>\<open>UPDATE Alarms SET is_handled = TRUE, handled_by = %s, handled_at = %s,
  handle_reason = %s WHERE sn = %s\<close>: the new table and \<^verbatim>\<open>cur.rowcount\<close>.
\<close>

definition handled_row :: "string \<Rightarrow> timestamp \<Rightarrow> string option \<Rightarrow> alarm_row \<Rightarrow> alarm_row" where
  "handled_row handled_by at rsn a =
     a\<lparr>a_is_handled := Some True, a_handled_by := Some handled_by, a_handled_at := Some at,
       a_handle_reason := rsn\<rparr>"

definition update_alarm ::
  "alarm_row list \<Rightarrow> string \<Rightarrow> timestamp \<Rightarrow> string option \<Rightarrow> int \<Rightarrow> alarm_row list \<times> nat" where
  "update_alarm tbl handled_by at rsn aid =
     (map (\<lambda>a. if a_sn a = aid then handled_row handled_by at rsn a else a) tbl,
      length (filter (\<lambda>a. a_sn a = aid) tbl))"

text \<open>
  The apply loop. \<open>raises aid\<close> says that the \<^verbatim>\<open>UPDATE\<close> for \<open>aid\<close> raises (the
  \<^verbatim>\<open>except Exception\<close> branch of the loop body); \<open>clock k\<close> is the value of the
  \<open>k\<close>-th call of \<^verbatim>\<open>datetime.utcnow()\<close>, one per iteration. The accumulators are
  the table, \<^verbatim>\<open>handled_count\<close> and \<^verbatim>\<open>failed_alarm_ids\<close>.
\<close>

fun handle_loop ::
  "(int \<Rightarrow> bool) \<Rightarrow> (nat \<Rightarrow> timestamp) \<Rightarrow> string \<Rightarrow> string option \<Rightarrow> int list \<Rightarrow> nat \<Rightarrow>
   alarm_row list \<Rightarrow> nat \<Rightarrow> int list \<Rightarrow> alarm_row list \<times> nat \<times> int list" where
  "handle_loop raises clock handled_by rsn [] k tbl cnt failed = (tbl, cnt, failed)"
| "handle_loop raises clock handled_by rsn (aid # rest) k tbl cnt failed =
     (if raises aid then handle_loop raises clock handled_by rsn rest (Suc k) tbl cnt (failed @ [aid])
      else if snd (update_alarm tbl handled_by (clock k) rsn aid) > 0
        then handle_loop raises clock handled_by rsn rest (Suc k)
               (fst (update_alarm tbl handled_by (clock k) rsn aid)) (cnt + 1) failed
        else handle_loop raises clock handled_by rsn rest (Suc k)
               (fst (update_alarm tbl handled_by (clock k) rsn aid)) cnt (failed @ [aid]))"

record handle_result =
  handled_count :: nat
  failed_count :: nat
  failed_alarm_ids :: "int list"
  handle_time :: timestamp

text \<open>
  \<^verbatim>\<open>handle_alarms\<close> returns the raised exception or the result dictionary (its constant
  \<^verbatim>\<open>message\<close> entry is left out), the stored data after the call, and the number of
  \<^verbatim>\<open>conn.commit()\<close> calls made.
\<close>

definition handle_alarms ::
  "(int \<Rightarrow> bool) \<Rightarrow> (nat \<Rightarrow> timestamp) \<Rightarrow> AlarmHandleRequest \<Rightarrow> string \<Rightarrow> db \<Rightarrow>
   (error + handle_result) \<times> db \<times> nat" where
  "handle_alarms raises clock alarm_handle handled_by d =
     (let existing_alarms = select_alarms_by_ids (Alarms d) (alarm_ids alarm_handle) in
      if length existing_alarms \<noteq> length (alarm_ids alarm_handle) then
        (let existing_ids = map fst existing_alarms;
             missing_ids = filter (\<lambda>aid. aid \<notin> set existing_ids) (alarm_ids alarm_handle)
         in (Inl (HTTPException 404 (TextIds ''Alarms not found: '' missing_ids)), d, 0))
      else if length (remdups (map (\<lambda>alarm. fst (snd alarm)) existing_alarms)) > 1 then
        (Inl (HTTPException 400 (Text ''All alarms must belong to the same organization'')), d, 0)
      else
        (let already_handled = map fst (filter (\<lambda>alarm. truthy (snd (snd alarm))) existing_alarms) in
         if already_handled \<noteq> [] then
           (Inl (HTTPException 400 (TextIds ''Alarms already handled: '' already_handled)), d, 0)
         else
           (let r = handle_loop raises clock handled_by (reason alarm_handle)
                      (alarm_ids alarm_handle) 0 (Alarms d) 0 []
            in (Inr \<lparr>handled_count = fst (snd r),
                     failed_count = length (snd (snd r)),
                     failed_alarm_ids = snd (snd r),
                     handle_time = clock (length (alarm_ids alarm_handle))\<rparr>,
                d\<lparr>Alarms := fst r\<rparr>, 1))))"

section \<open>Bulk tag transfer (tags\_service.transfer\_tags)\<close>

text \<open>
  \<^verbatim>\<open>SELECT organization_name FROM Organizations WHERE id = %s\<close> with
  \<^verbatim>\<open>fetchone()\<close>.
\<close>

definition select_target_org :: "organization_row list \<Rightarrow> int \<Rightarrow> string option" where
  "select_target_org tbl oid =
     (case filter (\<lambda>org. o_id org = oid) tbl of [] \<Rightarrow> None
      | org # _ \<Rightarrow> Some (o_organization_name org))"

text \<open>\<^verbatim>\<open>SELECT sn, organization FROM Tags WHERE sn = ANY(%s)\<close>\<close>

definition select_tags_by_ids :: "tag_row list \<Rightarrow> int list \<Rightarrow> (int \<times> string) list" where
  "select_tags_by_ids tbl ids =
     map (\<lambda>t. (t_sn t, t_organization t)) (filter (\<lambda>t. t_sn t \<in> set ids) tbl)"

text \<open>\<^verbatim>\<open>UPDATE Tags SET organization = %s WHERE sn = %s\<close>\<close>

definition update_tag :: "tag_row list \<Rightarrow> string \<Rightarrow> int \<Rightarrow> tag_row list \<times> nat" where
  "update_tag tbl org tid =
     (map (\<lambda>t. if t_sn t = tid then t\<lparr>t_organization := org\<rparr> else t) tbl,
      length (filter (\<lambda>t. t_sn t = tid) tbl))"

fun transfer_loop ::
  "(int \<Rightarrow> bool) \<Rightarrow> string \<Rightarrow> int list \<Rightarrow> tag_row list \<Rightarrow> nat \<Rightarrow> int list \<Rightarrow>
   tag_row list \<times> nat \<times> int list" where
  "transfer_loop raises org [] tbl cnt failed = (tbl, cnt, failed)"
| "transfer_loop raises org (tid # rest) tbl cnt failed =
     (if raises tid then transfer_loop raises org rest tbl cnt (failed @ [tid])
      else if snd (update_tag tbl org tid) > 0
        then transfer_loop raises org rest (fst (update_tag tbl org tid)) (cnt + 1) failed
        else transfer_loop raises org rest (fst (update_tag tbl org tid)) cnt (failed @ [tid]))"

record transfer_result =
  transferred_count :: nat
  transfer_failed_count :: nat
  failed_tag_ids :: "int list"
  transfer_time :: timestamp

definition transfer_tags ::
  "(int \<Rightarrow> bool) \<Rightarrow> (nat \<Rightarrow> timestamp) \<Rightarrow> TagTransferRequest \<Rightarrow> db \<Rightarrow>
   (error + transfer_result) \<times> db \<times> nat" where
  "transfer_tags raises clock tag_transfer d =
     (case select_target_org (Organizations d) (new_organization_id tag_transfer) of
        None \<Rightarrow> (Inl (HTTPException 404 (Text ''Target organization not found'')), d, 0)
      | Some target_org \<Rightarrow>
        (let existing_tags = select_tags_by_ids (Tags d) (tag_ids tag_transfer) in
         if length existing_tags \<noteq> length (tag_ids tag_transfer) then
           (let existing_ids = map fst existing_tags;
                missing_ids = filter (\<lambda>tid. tid \<notin> set existing_ids) (tag_ids tag_transfer)
            in (Inl (HTTPException 404 (TextIds ''Tags not found: '' missing_ids)), d, 0))
         else
           (let r = transfer_loop raises target_org (tag_ids tag_transfer) (Tags d) 0 []
            in (Inr \<lparr>transferred_count = fst (snd r),
                     transfer_failed_count = length (snd (snd r)),
                     failed_tag_ids = snd (snd r),
                     transfer_time = clock 0\<rparr>,
                d\<lparr>Tags := fst r\<rparr>, 1))))"

section \<open>Queries: joins, ordering and pagination\<close>

text \<open>
  \<^verbatim>\<open>FROM l LEFT JOIN r ON cond\<close>: every left row is kept; it is paired with each
  matching right row, or once with \<^verbatim>\<open>NULL\<close> when none matches.
  \<^verbatim>\<open>FROM l JOIN r ON cond\<close> keeps the matching pairs only.
\<close>

definition left_join :: "'a list \<Rightarrow> 'b list \<Rightarrow> ('a \<Rightarrow> 'b \<Rightarrow> bool) \<Rightarrow> ('a \<times> 'b option) list" where
  "left_join ls rs cond =
     concat (map (\<lambda>l. if filter (cond l) rs = [] then [(l, None)]
                        else map (\<lambda>r. (l, Some r)) (filter (cond l) rs)) ls)"

definition inner_join :: "'a list \<Rightarrow> 'b list \<Rightarrow> ('a \<Rightarrow> 'b \<Rightarrow> bool) \<Rightarrow> ('a \<times> 'b) list" where
  "inner_join ls rs cond = concat (map (\<lambda>l. map (\<lambda>r. (l, r)) (filter (cond l) rs)) ls)"

text \<open>
  \<^verbatim>\<open>LIMIT %s OFFSET %s\<close>. PostgreSQL rejects a negative limit or offset; the services
  turn any such database error into a 500.
\<close>

definition sql_limit_offset :: "int \<Rightarrow> int \<Rightarrow> 'a list \<Rightarrow> 'a list option" where
  "sql_limit_offset lim off rows =
     (if lim < 0 \<or> off < 0 then None else Some (take (nat lim) (drop (nat off) rows)))"


text \<open>Python's \<^verbatim>\<open>x or default\<close> on an optional string: \<^verbatim>\<open>None\<close> and \<^verbatim>\<open>""\<close> are false.\<close>

definition py_or :: "string option \<Rightarrow> string \<Rightarrow> string" where
  "py_or x dflt = (case x of None \<Rightarrow> dflt | Some s \<Rightarrow> if s = [] then dflt else s)"

section \<open>Alarm listing and lookup (alarms\_service)\<close>




record Alarm =
  al_sn :: int
  al_organization :: string
  al_imei :: string
  al_tracking_object :: string
  al_warn_type :: string
  al_time :: timestamp
  al_is_handled :: "bool option"







record AlarmListResult =
  alarms :: "Alarm list"
  alarms_page :: int
  alarms_page_size :: int
  alarms_total_records :: nat



section \<open>Route listing and lookup (routes\_service)\<close>















section \<open>Tag listing and lookup (tags\_service)\<close>

record TagFilter =
  tf_organization :: "string option"
  tf_model :: "string option"
  tf_page :: int
  tf_page_size :: int

record Tag =
  tg_sn :: int
  tg_organization :: string
  tg_imei :: string

text \<open>\<^verbatim>\<open>FROM Tags t JOIN Organizations o ON t.organization = o.organization_name\<close>\<close>

definition tag_join :: "db \<Rightarrow> (tag_row \<times> organization_row) list" where
  "tag_join d =
     inner_join (Tags d) (Organizations d) (\<lambda>t org. t_organization t = o_organization_name org)"

text \<open>
  The \<^verbatim>\<open>WHERE\<close> clause of \<^verbatim>\<open>get_tags_with_filters\<close>, appended alike to both queries. A
  filter field that is \<^verbatim>\<open>None\<close> or empty adds nothing. \<open>ilike pattern s\<close> stands for the
  database's \<^verbatim>\<open>s ILIKE pattern\<close>; the pattern is \<^verbatim>\<open>f"%{tag_filter.model}%"\<close>.
\<close>

definition tag_where ::
  "(string \<Rightarrow> string \<Rightarrow> bool) \<Rightarrow> TagFilter \<Rightarrow> tag_row \<times> organization_row \<Rightarrow> bool" where
  "tag_where ilike f row =
     ((case tf_organization f of None \<Rightarrow> True
       | Some s \<Rightarrow> if s = [] then True else o_organization_name (snd row) = s)
      \<and> (case tf_model f of None \<Rightarrow> True
         | Some m \<Rightarrow> if m = [] then True else ilike (''%'' @ m @ ''%'') (t_imei (fst row))))"

definition tag_count :: "(string \<Rightarrow> string \<Rightarrow> bool) \<Rightarrow> db \<Rightarrow> TagFilter \<Rightarrow> nat" where
  "tag_count ilike d f = length (filter (tag_where ilike f) (tag_join d))"

text \<open>\<^verbatim>\<open>base_query\<close> up to \<^verbatim>\<open>ORDER BY t.sn\<close>.\<close>

definition tag_rows ::
  "(string \<Rightarrow> string \<Rightarrow> bool) \<Rightarrow> db \<Rightarrow> TagFilter \<Rightarrow> (tag_row \<times> organization_row) list" where
  "tag_rows ilike d f =
     sort_key (\<lambda>row. t_sn (fst row)) (filter (tag_where ilike f) (tag_join d))"

definition Tag_of_row :: "tag_row \<times> organization_row \<Rightarrow> Tag" where
  "Tag_of_row row =
     \<lparr>tg_sn = t_sn (fst row), tg_organization = o_organization_name (snd row),
      tg_imei = t_imei (fst row)\<rparr>"

record TagListResult =
  tags :: "Tag list"
  tags_total_count :: nat
  tags_page :: int
  tags_page_size :: int

definition get_tags_with_filters ::
  "(string \<Rightarrow> string \<Rightarrow> bool) \<Rightarrow> db \<Rightarrow> TagFilter \<Rightarrow> error + TagListResult" where
  "get_tags_with_filters ilike d tag_filter =
     (let total_count = tag_count ilike d tag_filter;
          offset = (tf_page tag_filter - 1) * tf_page_size tag_filter
      in case sql_limit_offset (tf_page_size tag_filter) offset (tag_rows ilike d tag_filter) of
           None \<Rightarrow> Inl (HTTPException 500 (Text ''Failed to fetch tags''))
         | Some rows \<Rightarrow>
             Inr \<lparr>tags = map Tag_of_row rows,
                  tags_total_count = total_count,
                  tags_page = tf_page tag_filter,
                  tags_page_size = tf_page_size tag_filter\<rparr>)"

definition get_tag_by_id :: "db \<Rightarrow> int \<Rightarrow> Tag option" where
  "get_tag_by_id d tag_id =
     (case filter (\<lambda>row. t_sn (fst row) = tag_id) (tag_join d) of
        [] \<Rightarrow> None
      | row # _ \<Rightarrow> Some (Tag_of_row row))"

section \<open>Connection scope (db/connection.get\_conn)\<close>

text \<open>
  The pool and the direct connections are seen through the calls made on them:
  \<^verbatim>\<open>pool_instance.getconn()\<close>, \<^verbatim>\<open>pool_instance.putconn(conn)\<close>,
  \<^verbatim>\<open>psycopg2.connect(...)\<close> and \<^verbatim>\<open>conn.close()\<close>.
\<close>

record pool_state =
  getconn_calls :: nat
  putconn_calls :: nat
  connect_calls :: nat
  close_calls :: nat

text \<open>
  \<^verbatim>\<open>get_conn\<close> is a generator function. Its generator is created, suspended at its
  \<^verbatim>\<open>yield\<close>, or finished, and is driven by \<^verbatim>\<open>next\<close>, by \<^verbatim>\<open>throw\<close>, or by
  \<^verbatim>\<open>close\<close>, which is also what finalization of a dropped generator does
  (\<^verbatim>\<open>GeneratorExit\<close> is raised at the \<^verbatim>\<open>yield\<close>). \<open>pooled\<close> says that \<^verbatim>\<open>get_pool()\<close>
  returned a pool. In the pooled branch the \<^verbatim>\<open>yield\<close> is inside \<^verbatim>\<open>try\<close> with
  \<^verbatim>\<open>finally: pool_instance.putconn(conn)\<close>; in the other branch \<^verbatim>\<open>conn.close()\<close>
  follows the \<^verbatim>\<open>yield\<close> and is reached by \<^verbatim>\<open>next\<close> only.
\<close>

datatype gen_state = Created | Suspended | Finished

datatype resume = Next | Throw | Close

datatype gen_result = Yielded | StopIteration | Raised | Closed

fun get_conn :: "bool \<Rightarrow> resume \<Rightarrow> gen_state \<Rightarrow> pool_state \<Rightarrow> gen_result \<times> gen_state \<times> pool_state" where
  "get_conn True Next Created p = (Yielded, Suspended, p\<lparr>getconn_calls := getconn_calls p + 1\<rparr>)"
| "get_conn True Next Suspended p = (StopIteration, Finished, p\<lparr>putconn_calls := putconn_calls p + 1\<rparr>)"
| "get_conn True Throw Suspended p = (Raised, Finished, p\<lparr>putconn_calls := putconn_calls p + 1\<rparr>)"
| "get_conn True Close Suspended p = (Closed, Finished, p\<lparr>putconn_calls := putconn_calls p + 1\<rparr>)"
| "get_conn False Next Created p = (Yielded, Suspended, p\<lparr>connect_calls := connect_calls p + 1\<rparr>)"
| "get_conn False Next Suspended p = (StopIteration, Finished, p\<lparr>close_calls := close_calls p + 1\<rparr>)"
| "get_conn False Throw Suspended p = (Raised, Finished, p)"
| "get_conn False Close Suspended p = (Closed, Finished, p)"
| "get_conn pooled Throw Created p = (Raised, Finished, p)"
| "get_conn pooled Close Created p = (Closed, Finished, p)"
| "get_conn pooled Next Finished p = (StopIteration, Finished, p)"
| "get_conn pooled Throw Finished p = (Raised, Finished, p)"
| "get_conn pooled Close Finished p = (Closed, Finished, p)"

text \<open>
  Every service function has the shape
  \<^verbatim>\<open>try: with next(get_conn()) as conn: ... except HTTPException: raise
  except Exception: raise HTTPException(500, ...)\<close>.
  The body returns, raises an \<^verbatim>\<open>HTTPException\<close> (a failed check), or raises something
  else. The generator made by \<^verbatim>\<open>get_conn()\<close> is referenced by the call of \<^verbatim>\<open>next\<close>
  only: when \<^verbatim>\<open>next\<close> has returned the connection, the reference count of the generator
  is zero and CPython finalizes it at once, before the body of the \<^verbatim>\<open>with\<close> statement
  runs. The body has no access to the pool.
\<close>

datatype 'a body_exit = Returns 'a | RaisesHTTP error | RaisesOther

definition service_scope :: "bool \<Rightarrow> string \<Rightarrow> 'a body_exit \<Rightarrow> pool_state \<Rightarrow> (error + 'a) \<times> pool_state" where
  "service_scope pooled failure_detail body p =
     (let started = get_conn pooled Next Created p;
          dropped = get_conn pooled Close (fst (snd started)) (snd (snd started))
      in (case body of
            Returns v \<Rightarrow> Inr v
          | RaisesHTTP e \<Rightarrow> Inl e
          | RaisesOther \<Rightarrow> Inl (HTTPException 500 (Text failure_detail)),
          snd (snd dropped)))"

definition pool_idle :: pool_state where
  "pool_idle = \<lparr>getconn_calls = 0, putconn_calls = 0, connect_calls = 0, close_calls = 0\<rparr>"

section \<open>What the display fields show\<close>




section \<open>Example data\<close>

text \<open>
  The data of the specification's end-to-end example: organization \<open>acme\<close> has the tags
  \<open>111\<close> (no tracking object) and \<open>222\<close> (tracking object \<open>Forklift-1\<close>), and one alarm
  on each; alarm 1 is unhandled, alarm 2 is handled.
\<close>

definition alarm_A :: alarm_row where
  "alarm_A = \<lparr>a_sn = 1, a_organization = ''acme'', a_imei = ''111'', a_warn_type = ''geofence'',
     a_time = 10, a_is_handled = Some False, a_handled_by = None, a_handled_at = None,
     a_handle_reason = None\<rparr>"

definition alarm_B :: alarm_row where
  "alarm_B = \<lparr>a_sn = 2, a_organization = ''acme'', a_imei = ''222'', a_warn_type = ''geofence'',
     a_time = 20, a_is_handled = Some True, a_handled_by = Some ''bob'', a_handled_at = Some 25,
     a_handle_reason = None\<rparr>"


definition db_acme :: db where
  "db_acme = \<lparr>Alarms = [alarm_A, alarm_B],
     Tags = [\<lparr>t_sn = 1, t_organization = ''acme'', t_imei = ''111''\<rparr>,
             \<lparr>t_sn = 2, t_organization = ''acme'', t_imei = ''222''\<rparr>],
     Tracking_Objects = [\<lparr>to_sn = 1, to_name = ''Forklift-1'', to_mac = Some ''222''\<rparr>],
     Organizations = [\<lparr>o_id = 1, o_organization_name = ''acme''\<rparr>,
                      \<lparr>o_id = 2, o_organization_name = ''globex''\<rparr>],
     Route_List = [\<lparr>r_sn = 1, r_terminal_id = ''111'', r_tracking_time = 5\<rparr>,
                   \<lparr>r_sn = 2, r_terminal_id = ''222'', r_tracking_time = 10\<rparr>]\<rparr>"


text \<open>A clock whose \<open>k\<close>-th reading is \<open>100 + k\<close>.\<close>

definition clock_demo :: "nat \<Rightarrow> timestamp" where
  "clock_demo k = 100 + int k"



text \<open>
  A tag whose organization has no row in Organizations, and a route whose terminal has no
  tag.
\<close>

definition db_orphan :: db where
  "db_orphan = db_acme\<lparr>
      Tags := Tags db_acme @ [\<lparr>t_sn = 3, t_organization = ''nowhere'', t_imei = ''333''\<rparr>],
      Route_List := Route_List db_acme @
        [\<lparr>r_sn = 3, r_terminal_id = ''999'', r_tracking_time = 7\<rparr>]\<rparr>"



definition tag_filter_all :: TagFilter where
  "tag_filter_all = \<lparr>tf_organization = None, tf_model = None, tf_page = 1, tf_page_size = 10\<rparr>"

section \<open>Properties of the bulk operations\<close>




















lemma card_remdups_gt1: "(1 < length (remdups xs)) = (\<exists>a\<in>set xs. \<exists>b\<in>set xs. a \<noteq> b)"
proof -
  have "length (remdups xs) = card (set xs)" by (simp add: length_remdups_card_conv)
  moreover have "(1 < card (set xs)) = (\<exists>a\<in>set xs. \<exists>b\<in>set xs. a \<noteq> b)"
  proof
    assume "1 < card (set xs)"
    then obtain a b where "a \<in> set xs" "b \<in> set xs" "a \<noteq> b"
      by (metis One_nat_def card_le_Suc0_iff_eq List.finite_set not_less)
    then show "\<exists>a\<in>set xs. \<exists>b\<in>set xs. a \<noteq> b" by blast
  next
    assume "\<exists>a\<in>set xs. \<exists>b\<in>set xs. a \<noteq> b"
    then show "1 < card (set xs)"
      by (metis One_nat_def card_le_Suc0_iff_eq List.finite_set not_less)
  qed
  ultimately show ?thesis by simp
qed

lemma select_orgs:
  "map (\<lambda>alarm. fst (snd alarm)) (select_alarms_by_ids tbl ids) =
     map a_organization (filter (\<lambda>a. a_sn a \<in> set ids) tbl)"
  by (simp add: select_alarms_by_ids_def comp_def)

lemma select_handled:
  "map fst (filter (\<lambda>alarm. truthy (snd (snd alarm))) (select_alarms_by_ids tbl ids)) =
     map a_sn (filter (\<lambda>a. a_is_handled a = Some True) (filter (\<lambda>a. a_sn a \<in> set ids) tbl))"
  by (simp add: select_alarms_by_ids_def filter_map comp_def truthy_def)


text \<open>
  Claim C1. When every row requested by a bulk handle was fetched (the existence check
  passes) and either two fetched alarms differ in organization or a fetched alarm has
  \<^verbatim>\<open>is_handled\<close> true, \<^verbatim>\<open>handle_alarms\<close> raises the rejection that the specification
  calls Conflict, which the code sends as HTTP 400: with the fixed organization message when
  the organizations differ, and otherwise with the list of the already handled ids. The
  stored data is returned as it was, so no handling column of any alarm changes, and nothing
  is committed.
\<close>

theorem bulk_handle_invariant_phase:
  assumes ex: "length (select_alarms_by_ids (Alarms d) (alarm_ids req)) = length (alarm_ids req)"
    and viol: "(\<exists>a\<in>set (filter (\<lambda>a. a_sn a \<in> set (alarm_ids req)) (Alarms d)).
                \<exists>b\<in>set (filter (\<lambda>a. a_sn a \<in> set (alarm_ids req)) (Alarms d)).
                  a_organization a \<noteq> a_organization b)
             \<or> (\<exists>a\<in>set (filter (\<lambda>a. a_sn a \<in> set (alarm_ids req)) (Alarms d)).
                  a_is_handled a = Some True)"
  shows "handle_alarms raises clock req hb d =
     (Inl (HTTPException 400
        (if \<exists>a\<in>set (filter (\<lambda>a. a_sn a \<in> set (alarm_ids req)) (Alarms d)).
              \<exists>b\<in>set (filter (\<lambda>a. a_sn a \<in> set (alarm_ids req)) (Alarms d)).
                a_organization a \<noteq> a_organization b
         then Text ''All alarms must belong to the same organization''
         else TextIds ''Alarms already handled: ''
                (map a_sn (filter (\<lambda>a. a_is_handled a = Some True)
                   (filter (\<lambda>a. a_sn a \<in> set (alarm_ids req)) (Alarms d)))))), d, 0)"
proof -
  let ?T = "filter (\<lambda>a. a_sn a \<in> set (alarm_ids req)) (Alarms d)"
  let ?two = "\<exists>a\<in>set ?T. \<exists>b\<in>set ?T. a_organization a \<noteq> a_organization b"
  have orgs: "(1 < length (remdups (map (\<lambda>alarm. fst (snd alarm))
                 (select_alarms_by_ids (Alarms d) (alarm_ids req))))) = ?two"
    unfolding select_orgs card_remdups_gt1 by auto
  show ?thesis
  proof (cases ?two)
    case True
    with ex orgs show ?thesis by (simp add: handle_alarms_def Let_def)
  next
    case False
    with viol have h: "\<exists>a\<in>set ?T. a_is_handled a = Some True" by blast
    then have ne: "map a_sn (filter (\<lambda>a. a_is_handled a = Some True) ?T) \<noteq> []"
      by (auto simp: filter_empty_conv)
    from False ex orgs ne show ?thesis
      by (simp add: handle_alarms_def Let_def select_handled del: filter_filter)
  qed
qed

text \<open>The mixed batch \<open>[A (unhandled), B (handled)]\<close>: rejected, and \<open>A\<close> is still unhandled.\<close>

theorem bulk_handle_invariant_phase_witness:
  "handle_alarms (\<lambda>aid. False) clock_demo \<lparr>alarm_ids = [1, 2], reason = None\<rparr> ''admin'' db_acme =
     (Inl (HTTPException 400 (TextIds ''Alarms already handled: '' [2])), db_acme, 0)
   \<and> map a_is_handled (Alarms db_acme) = [Some False, Some True]"
proof -
  have h1: "length (select_alarms_by_ids (Alarms db_acme)
               (alarm_ids \<lparr>alarm_ids = [1, 2], reason = None\<rparr>)) =
            length (alarm_ids \<lparr>alarm_ids = [1, 2], reason = None\<rparr>)"
    by (simp add: select_alarms_by_ids_def db_acme_def alarm_A_def alarm_B_def)
  have h2: "(\<exists>a\<in>set (filter (\<lambda>a. a_sn a \<in> set (alarm_ids \<lparr>alarm_ids = [1, 2], reason = None\<rparr>))
                       (Alarms db_acme)).
             \<exists>b\<in>set (filter (\<lambda>a. a_sn a \<in> set (alarm_ids \<lparr>alarm_ids = [1, 2], reason = None\<rparr>))
                       (Alarms db_acme)).
               a_organization a \<noteq> a_organization b)
          \<or> (\<exists>a\<in>set (filter (\<lambda>a. a_sn a \<in> set (alarm_ids \<lparr>alarm_ids = [1, 2], reason = None\<rparr>))
                       (Alarms db_acme)).
               a_is_handled a = Some True)"
    by (simp add: db_acme_def alarm_A_def alarm_B_def)
  show ?thesis
    using bulk_handle_invariant_phase [OF h1 h2, of "\<lambda>aid. False" clock_demo "''admin''"]
    by (simp add: db_acme_def alarm_A_def alarm_B_def)
qed

lemma missing_ids_set:
  "set (filter (\<lambda>aid. aid \<notin> set (map fst (select_alarms_by_ids tbl ids))) ids) = set ids - a_sn ` set tbl"
  by (auto simp: select_alarms_by_ids_def)

lemma missing_tag_ids_set:
  "set (filter (\<lambda>tid. tid \<notin> set (map fst (select_tags_by_ids tbl ids))) ids) = set ids - t_sn ` set tbl"
  by (auto simp: select_tags_by_ids_def)

text \<open>
  Claim C2. In both bulk operations the targets are fetched by one \<^verbatim>\<open>SELECT\<close>; when it
  returns fewer rows than ids were requested, the call raises 404 (NotFound), its detail
  lists exactly the requested ids that are not in the table, the stored data is unchanged
  and nothing is committed. (For the tag transfer the existence phase is reached once the
  target organization has been found.)
\<close>

theorem bulk_existence_phase:
  "(length (select_alarms_by_ids (Alarms d) (alarm_ids req)) < length (alarm_ids req) \<longrightarrow>
      (\<exists>missing. handle_alarms raises clock req hb d =
          (Inl (HTTPException 404 (TextIds ''Alarms not found: '' missing)), d, 0)
        \<and> set missing = set (alarm_ids req) - a_sn ` set (Alarms d)))
   \<and> (select_target_org (Organizations d) (new_organization_id treq) \<noteq> None
      \<and> length (select_tags_by_ids (Tags d) (tag_ids treq)) < length (tag_ids treq) \<longrightarrow>
      (\<exists>missing. transfer_tags raises clock treq d =
          (Inl (HTTPException 404 (TextIds ''Tags not found: '' missing)), d, 0)
        \<and> set missing = set (tag_ids treq) - t_sn ` set (Tags d)))"
proof (intro conjI impI)
  assume lt: "length (select_alarms_by_ids (Alarms d) (alarm_ids req)) < length (alarm_ids req)"
  let ?m = "filter (\<lambda>aid. aid \<notin> set (map fst (select_alarms_by_ids (Alarms d) (alarm_ids req)))) (alarm_ids req)"
  from lt have "handle_alarms raises clock req hb d =
      (Inl (HTTPException 404 (TextIds ''Alarms not found: '' ?m)), d, 0)"
    by (simp add: handle_alarms_def Let_def)
  moreover have "set ?m = set (alarm_ids req) - a_sn ` set (Alarms d)"
    by (rule missing_ids_set)
  ultimately show "\<exists>missing. handle_alarms raises clock req hb d =
          (Inl (HTTPException 404 (TextIds ''Alarms not found: '' missing)), d, 0)
        \<and> set missing = set (alarm_ids req) - a_sn ` set (Alarms d)" by blast
next
  assume a: "select_target_org (Organizations d) (new_organization_id treq) \<noteq> None
      \<and> length (select_tags_by_ids (Tags d) (tag_ids treq)) < length (tag_ids treq)"
  let ?m = "filter (\<lambda>tid. tid \<notin> set (map fst (select_tags_by_ids (Tags d) (tag_ids treq)))) (tag_ids treq)"
  from a obtain org where o: "select_target_org (Organizations d) (new_organization_id treq) = Some org"
    by auto
  from a o have "transfer_tags raises clock treq d =
      (Inl (HTTPException 404 (TextIds ''Tags not found: '' ?m)), d, 0)"
    by (simp add: transfer_tags_def Let_def)
  moreover have "set ?m = set (tag_ids treq) - t_sn ` set (Tags d)"
    by (rule missing_tag_ids_set)
  ultimately show "\<exists>missing. transfer_tags raises clock treq d =
          (Inl (HTTPException 404 (TextIds ''Tags not found: '' missing)), d, 0)
        \<and> set missing = set (tag_ids treq) - t_sn ` set (Tags d)" by blast
qed

text \<open>
  At the example data: alarm 3 and tag 7 do not exist, and they are the ids named.
\<close>

theorem bulk_existence_phase_witness:
  "handle_alarms (\<lambda>aid. False) clock_demo \<lparr>alarm_ids = [1, 3], reason = None\<rparr> ''admin'' db_acme =
     (Inl (HTTPException 404 (TextIds ''Alarms not found: '' [3])), db_acme, 0)
   \<and> transfer_tags (\<lambda>tid. False) clock_demo
       \<lparr>tag_ids = [2, 7], new_organization_id = 2, transfer_reason = None\<rparr> db_acme =
     (Inl (HTTPException 404 (TextIds ''Tags not found: '' [7])), db_acme, 0)"
  using bulk_existence_phase [of db_acme "\<lparr>alarm_ids = [1, 3], reason = None\<rparr>"
      "\<lambda>aid. False" clock_demo "''admin''"
      "\<lparr>tag_ids = [2, 7], new_organization_id = 2, transfer_reason = None\<rparr>"]
  by (simp add: handle_alarms_def transfer_tags_def select_alarms_by_ids_def
      select_tags_by_ids_def select_target_org_def db_acme_def alarm_A_def alarm_B_def Let_def)



text \<open>
  Claim C4. Both validators reject the empty list and a list of more than 100 ids, and
  \<^verbatim>\<open>validate_alarm_ids\<close> rejects a duplicate. \<^verbatim>\<open>validate_tag_ids\<close> has no duplicate
  check: the list \<open>[1, 1]\<close> is accepted and reaches \<^verbatim>\<open>transfer_tags\<close>, which answers
  404 with an empty list of missing ids because one row was fetched for two requested ids.
\<close>

theorem tag_ids_duplicate_accepted:
  "validate_alarm_ids [1, 1] = Inl ''Duplicate alarm IDs are not allowed''
   \<and> validate_tag_ids [1, 1] = Inr [1, 1]
   \<and> transfer_tags (\<lambda>tid. False) clock_demo
       \<lparr>tag_ids = [1, 1], new_organization_id = 2, transfer_reason = None\<rparr> db_acme =
     (Inl (HTTPException 404 (TextIds ''Tags not found: '' [])), db_acme, 0)"
  by (simp add: validate_alarm_ids_def validate_tag_ids_def transfer_tags_def
      select_tags_by_ids_def select_target_org_def db_acme_def Let_def)

section \<open>Properties of the queries\<close>













lemma inner_join_filter_left:
  assumes "\<And>l. l \<in> set ls \<Longrightarrow> \<not> P l \<Longrightarrow> filter (cond l) rs = []"
  shows "inner_join (filter P ls) rs cond = inner_join ls rs cond"
  using assms by (induction ls) (auto simp: inner_join_def)

lemma set_inner_join:
  "set (inner_join ls rs cond) = {(l, r). l \<in> set ls \<and> r \<in> set rs \<and> cond l r}"
  by (auto simp: inner_join_def)

lemma tag_join_drop_orphans:
  "tag_join (d\<lparr>Tags := filter (\<lambda>t. t_organization t \<in> o_organization_name ` set (Organizations d))
                          (Tags d)\<rparr>) = tag_join d"
  unfolding tag_join_def
  by (simp, rule inner_join_filter_left) (auto simp: filter_empty_conv)

lemma tag_rows_org:
  "row \<in> set (tag_rows ilike d f) \<Longrightarrow>
     fst row \<in> set (Tags d) \<and> snd row \<in> set (Organizations d)
     \<and> t_organization (fst row) = o_organization_name (snd row)"
  by (auto simp: tag_rows_def tag_join_def set_inner_join)

text \<open>
  Claim C10. The tag list, its count and the tag lookup all read
  \<^verbatim>\<open>Tags JOIN Organizations\<close>, an inner join. Removing from Tags every tag whose
  organization names no Organizations row changes neither the listed tags nor the total
  count; every listed tag is a stored tag shown with its own organization, which names a
  row of Organizations; and the lookup of an id that only such orphaned tags carry returns
  no item, which the router answers with 404. No placeholder is substituted.
\<close>

theorem tags_require_organization:
  "get_tags_with_filters ilike
      (d\<lparr>Tags := filter (\<lambda>t. t_organization t \<in> o_organization_name ` set (Organizations d))
                    (Tags d)\<rparr>) f
     = get_tags_with_filters ilike d f
   \<and> (\<forall>res. get_tags_with_filters ilike d f = Inr res \<longrightarrow>
         (\<forall>x\<in>set (tags res). \<exists>t\<in>set (Tags d). tg_sn x = t_sn t
            \<and> t_organization t = tg_organization x
            \<and> tg_organization x \<in> o_organization_name ` set (Organizations d)))
   \<and> ((\<forall>t\<in>set (Tags d). t_sn t = i \<longrightarrow>
          t_organization t \<notin> o_organization_name ` set (Organizations d))
        \<longrightarrow> get_tag_by_id d i = None)"
proof (intro conjI allI impI)
  show "get_tags_with_filters ilike
      (d\<lparr>Tags := filter (\<lambda>t. t_organization t \<in> o_organization_name ` set (Organizations d))
                    (Tags d)\<rparr>) f
     = get_tags_with_filters ilike d f"
    by (simp add: get_tags_with_filters_def tag_count_def tag_rows_def tag_join_drop_orphans)
next
  fix res assume r: "get_tags_with_filters ilike d f = Inr res"
  show "\<forall>x\<in>set (tags res). \<exists>t\<in>set (Tags d). tg_sn x = t_sn t
            \<and> t_organization t = tg_organization x
            \<and> tg_organization x \<in> o_organization_name ` set (Organizations d)"
  proof
    fix x assume x: "x \<in> set (tags res)"
    from r obtain rows where rows:
      "sql_limit_offset (tf_page_size f) ((tf_page f - 1) * tf_page_size f) (tag_rows ilike d f) = Some rows"
      "tags res = map Tag_of_row rows"
      by (auto simp: get_tags_with_filters_def Let_def split: option.splits)
    from rows(1) have "set rows \<subseteq> set (tag_rows ilike d f)"
      by (auto simp: sql_limit_offset_def split: if_splits dest: in_set_takeD in_set_dropD)
    with x rows(2) obtain row where row: "row \<in> set (tag_rows ilike d f)" "x = Tag_of_row row"
      by auto
    from tag_rows_org [OF row(1)] row(2)
    show "\<exists>t\<in>set (Tags d). tg_sn x = t_sn t
            \<and> t_organization t = tg_organization x
            \<and> tg_organization x \<in> o_organization_name ` set (Organizations d)"
      by (auto simp: Tag_of_row_def intro!: bexI [of _ "fst row"])
  qed
next
  assume o: "\<forall>t\<in>set (Tags d). t_sn t = i \<longrightarrow>
          t_organization t \<notin> o_organization_name ` set (Organizations d)"
  have "filter (\<lambda>row. t_sn (fst row) = i) (tag_join d) = []"
    using o by (auto simp: filter_empty_conv tag_join_def set_inner_join)
  then show "get_tag_by_id d i = None" by (simp add: get_tag_by_id_def)
qed

text \<open>
  Tag 3 of the example data belongs to \<open>nowhere\<close>, which is not an organization: the list
  and the count are those of the data without it, and the lookup finds nothing.
\<close>

theorem tags_require_organization_witness:
  "get_tags_with_filters (\<lambda>pattern s. True) db_orphan tag_filter_all =
     Inr \<lparr>tags = [\<lparr>tg_sn = 1, tg_organization = ''acme'', tg_imei = ''111''\<rparr>,
                  \<lparr>tg_sn = 2, tg_organization = ''acme'', tg_imei = ''222''\<rparr>],
          tags_total_count = 2, tags_page = 1, tags_page_size = 10\<rparr>
   \<and> get_tags_with_filters (\<lambda>pattern s. True) db_orphan tag_filter_all =
     get_tags_with_filters (\<lambda>pattern s. True) db_acme tag_filter_all
   \<and> map t_sn (Tags db_orphan) = [1, 2, 3]
   \<and> get_tag_by_id db_orphan 3 = None"
  using tags_require_organization [where d = db_orphan and i = 3 and f = tag_filter_all
      and ilike = "\<lambda>pattern s. True"]
  by (simp add:
      db_orphan_def db_acme_def alarm_A_def alarm_B_def tag_filter_all_def
      get_tags_with_filters_def tag_rows_def tag_join_def inner_join_def tag_where_def
      tag_count_def Tag_of_row_def get_tag_by_id_def left_join_def sql_limit_offset_def
      Let_def py_or_def)

section \<open>Properties of the connection scope\<close>

text \<open>
  Claim C9. Once the generator of \<^verbatim>\<open>get_conn\<close> has taken a connection from the pool and
  is suspended at its \<^verbatim>\<open>yield\<close>, whatever resumes it (\<^verbatim>\<open>next\<close>, \<^verbatim>\<open>throw\<close> or
  \<^verbatim>\<open>close\<close>) runs \<^verbatim>\<open>putconn\<close> once and finishes it. A service function takes one
  connection and gives one back whichever way its body ends: by returning, by a raised
  \<^verbatim>\<open>HTTPException\<close>, or by another exception, which becomes a 500. So if as many
  connections had been released as acquired before the call, the same holds after it. The
  release happens when the dropped generator is finalized, which in CPython is as soon as
  \<^verbatim>\<open>next\<close> has returned.
\<close>

theorem connection_released_on_every_exit:
  "(\<forall>r. get_conn True r Suspended p =
          (case r of Next \<Rightarrow> StopIteration | Throw \<Rightarrow> Raised | Close \<Rightarrow> Closed,
           Finished, p\<lparr>putconn_calls := putconn_calls p + 1\<rparr>))
   \<and> getconn_calls (snd (service_scope True msg body p)) = getconn_calls p + 1
   \<and> putconn_calls (snd (service_scope True msg body p)) = putconn_calls p + 1
   \<and> (getconn_calls p = putconn_calls p \<longrightarrow>
        getconn_calls (snd (service_scope True msg body p)) =
        putconn_calls (snd (service_scope True msg body p)))
   \<and> fst (service_scope True msg body p) =
       (case body of Returns v \<Rightarrow> Inr v | RaisesHTTP e \<Rightarrow> Inl e
        | RaisesOther \<Rightarrow> Inl (HTTPException 500 (Text msg)))"
proof (intro conjI allI impI)
  fix r show "get_conn True r Suspended p =
          (case r of Next \<Rightarrow> StopIteration | Throw \<Rightarrow> Raised | Close \<Rightarrow> Closed,
           Finished, p\<lparr>putconn_calls := putconn_calls p + 1\<rparr>)"
    by (cases r) simp_all
qed (simp_all add: service_scope_def Let_def)

text \<open>The three exit paths from an idle pool.\<close>

theorem connection_released_on_every_exit_witness:
  "service_scope True ''Failed to handle alarms'' (Returns (3::nat)) pool_idle =
     (Inr 3, \<lparr>getconn_calls = 1, putconn_calls = 1, connect_calls = 0, close_calls = 0\<rparr>)
   \<and> service_scope True ''Failed to handle alarms''
        (RaisesHTTP (HTTPException 404 (TextIds ''Alarms not found: '' [3])) :: nat body_exit) pool_idle =
     (Inl (HTTPException 404 (TextIds ''Alarms not found: '' [3])),
      \<lparr>getconn_calls = 1, putconn_calls = 1, connect_calls = 0, close_calls = 0\<rparr>)
   \<and> service_scope True ''Failed to handle alarms'' (RaisesOther :: nat body_exit) pool_idle =
     (Inl (HTTPException 500 (Text ''Failed to handle alarms'')),
      \<lparr>getconn_calls = 1, putconn_calls = 1, connect_calls = 0, close_calls = 0\<rparr>)"
  using connection_released_on_every_exit [where p = pool_idle and body = "Returns (3::nat)" and msg = "''Failed to handle alarms''"]
    connection_released_on_every_exit [where p = pool_idle and msg = "''Failed to handle alarms''"
      and body = "RaisesHTTP (HTTPException 404 (TextIds ''Alarms not found: '' [3])) :: nat body_exit"]
    connection_released_on_every_exit [where p = pool_idle and msg = "''Failed to handle alarms''"
      and body = "RaisesOther :: nat body_exit"]
  by (simp add: service_scope_def pool_idle_def Let_def)

section \<open>Properties of the join resolution\<close>

















end
